theory Spec2Isabelle
  imports Complex_Main
begin

section \<open>JavaScript values used by the session layer\<close>

text \<open>
  A JavaScript number that the store can hold. \<open>Num n\<close> is the double whose value is the
  integer \<open>n\<close>; \<open>NaN\<close> is what \<open>parseInt\<close> gives on a string without digits and what
  arithmetic on a non-number gives; \<open>Undefined\<close> is a missing element of a destructured
  array.

  The platform computes in doubles. On integers of magnitude up to \<open>2^53 - 1\<close> that
  arithmetic is exact; beyond, results are rounded. The model computes on that range
  only: an operation with an integer operand or result outside it returns \<open>None\<close>, which
  says that the model has no result there (it is not an exception of the code).
\<close>

datatype jsnum = Num int | NaN | Undefined

definition MAX_SAFE_INTEGER :: int where
  "MAX_SAFE_INTEGER = 9007199254740991"

definition safe_integer :: "int \<Rightarrow> bool" where
  "safe_integer n = (- MAX_SAFE_INTEGER \<le> n \<and> n \<le> MAX_SAFE_INTEGER)"

text \<open>
  \<open>a - b\<close> on numbers: any operand that is not a number makes the result \<open>NaN\<close>; two
  safe integers with a safe difference give that difference.
\<close>

fun js_sub :: "jsnum \<Rightarrow> jsnum \<Rightarrow> jsnum option" where
  "js_sub (Num a) (Num b) =
     (if safe_integer a \<and> safe_integer b \<and> safe_integer (a - b) then Some (Num (a - b))
      else None)"
| "js_sub _ _ = Some NaN"

text \<open>\<open>a !== b\<close>: \<open>NaN\<close> differs from everything, itself included.\<close>

fun strict_neq :: "jsnum \<Rightarrow> jsnum \<Rightarrow> bool" where
  "strict_neq NaN _ = True"
| "strict_neq _ NaN = True"
| "strict_neq a b = (a \<noteq> b)"

text \<open>Truthiness of a number: \<open>0\<close>, \<open>NaN\<close> and \<open>undefined\<close> are falsy.\<close>

fun truthy_num :: "jsnum \<Rightarrow> bool" where
  "truthy_num (Num n) = (n \<noteq> 0)"
| "truthy_num _ = False"

section \<open>gameState.ts: the session state store\<close>

text \<open>
  A listener is a JavaScript function value. The model keeps its identity and whether a
  call of it throws; what the listener does elsewhere is outside the store, and a
  listener is taken not to call back into the store while it runs.
\<close>

record listener =
  l_id :: nat
  l_throws :: bool

text \<open>
  One entry per listener invocation made by the store, in the order of the calls, tagged
  with the registry the listener was taken from. No function of the module produces
  \<open>PendingGameRestoreFired\<close>; the constructor is there to write down what the
  specification asks of \<open>triggerPendingGameRestore\<close>.
\<close>

datatype notification =
    GameStartedFired nat
  | GameEndedFired nat
  | GridDimensionFired nat jsnum jsnum
  | PendingGameRestoreFired nat

text \<open>
  One entry per call of a state-only setter or of \<open>setGridDimensions\<close> /
  \<open>setGameStarted\<close>, with its arguments (each of these functions writes one console line
  when it is called; \<open>ops\<close> keeps that sequence).
\<close>

datatype store_op =
    SetGameMatrix "string list list"
  | SetGridDimensions jsnum jsnum
  | SetStakeAmount real
  | SetRoundId "string option"
  | SetCurrentRow jsnum
  | SetReward real
  | SetGameStarted bool

text \<open>
  The module-level variables of gameState.ts and the data fields of the exported
  \<open>GlobalState\<close> object. \<open>fired\<close>, \<open>ops\<close> and \<open>listener_errors\<close> record what the module
  does; \<open>listener_errors\<close> counts the \<open>console.error\<close> lines of the catch blocks.
\<close>

record gstate =
  gridDimensionChangeListeners :: "listener list"
  gameStarted :: bool
  gameStartedListeners :: "listener list"
  gameEndedListeners :: "listener list"
  pendingGameRestoreListeners :: "listener list"
  pendingGameRestoreCompleteListeners :: "listener list"
  token :: "string option"
  total_rows :: jsnum
  total_cols :: jsnum
  current_row :: jsnum
  game_matrix :: "string list list"
  balance :: real
  stakeAmount :: real
  roundId :: "string option"
  reward :: real
  table_id :: string
  fired :: "notification list"
  ops :: "store_op list"
  listener_errors :: nat

definition DEFAULT_ROWS :: int where "DEFAULT_ROWS = 6"
definition DEFAULT_COLS :: int where "DEFAULT_COLS = 5"
definition DEFAULT_BALANCE :: real where "DEFAULT_BALANCE = 1000000"
definition DEFAULT_STAKE :: real where "DEFAULT_STAKE = 1"
definition DEFAULT_TABLE_ID :: string where "DEFAULT_TABLE_ID = ''STGMS101''"

text \<open>The state right after the module is loaded.\<close>

definition initial_gstate :: gstate where
  "initial_gstate =
     \<lparr> gridDimensionChangeListeners = [],
       gameStarted = False,
       gameStartedListeners = [],
       gameEndedListeners = [],
       pendingGameRestoreListeners = [],
       pendingGameRestoreCompleteListeners = [],
       token = None,
       total_rows = Num DEFAULT_ROWS,
       total_cols = Num DEFAULT_COLS,
       current_row = Num (DEFAULT_ROWS - 1),
       game_matrix = [],
       balance = DEFAULT_BALANCE,
       stakeAmount = DEFAULT_STAKE,
       roundId = None,
       reward = 0,
       table_id = DEFAULT_TABLE_ID,
       fired = [],
       ops = [],
       listener_errors = 0 \<rparr>"

text \<open>
  \<open>listeners.forEach(listener => { try { listener(...) } catch (error) { console.error(...) } })\<close>:
  every listener of the array is called, in array order; a throw is caught, logged and
  the iteration goes on. \<open>mk\<close> builds the record of the call.
\<close>

fun fire_all :: "(nat \<Rightarrow> notification) \<Rightarrow> listener list \<Rightarrow> gstate \<Rightarrow> gstate" where
  "fire_all mk [] g = g"
| "fire_all mk (l # ls) g =
     fire_all mk ls
       (g\<lparr> fired := fired g @ [mk (l_id l)],
           listener_errors := (if l_throws l then listener_errors g + 1 else listener_errors g) \<rparr>)"

definition setGameStarted :: "bool \<Rightarrow> gstate \<Rightarrow> gstate" where
  "setGameStarted started g =
     (let wasStarted = gameStarted g;
          g1 = g\<lparr> gameStarted := started, ops := ops g @ [SetGameStarted started] \<rparr>;
          g2 = (if started \<and> \<not> wasStarted
                then fire_all GameStartedFired (gameStartedListeners g1) g1 else g1);
          g3 = (if \<not> started \<and> wasStarted
                then fire_all GameEndedFired (gameEndedListeners g2) g2 else g2)
      in g3)"

definition getGameStarted :: "gstate \<Rightarrow> bool" where
  "getGameStarted g = gameStarted g"

definition addGameStartedListener :: "listener \<Rightarrow> gstate \<Rightarrow> gstate" where
  "addGameStartedListener callback g =
     g\<lparr> gameStartedListeners := gameStartedListeners g @ [callback] \<rparr>"

definition addGameEndedListener :: "listener \<Rightarrow> gstate \<Rightarrow> gstate" where
  "addGameEndedListener callback g =
     g\<lparr> gameEndedListeners := gameEndedListeners g @ [callback] \<rparr>"

definition setGridDimensions :: "jsnum \<Rightarrow> jsnum \<Rightarrow> gstate \<Rightarrow> gstate" where
  "setGridDimensions cols rows g =
     (let prevCols = total_cols g;
          prevRows = total_rows g;
          g1 = g\<lparr> total_cols := cols, total_rows := rows,
                   ops := ops g @ [SetGridDimensions cols rows] \<rparr>
      in if strict_neq prevCols cols \<or> strict_neq prevRows rows
         then fire_all (\<lambda>i. GridDimensionFired i cols rows) (gridDimensionChangeListeners g1) g1
         else g1)"

definition addGridDimensionChangeListener :: "listener \<Rightarrow> gstate \<Rightarrow> gstate" where
  "addGridDimensionChangeListener callback g =
     g\<lparr> gridDimensionChangeListeners := gridDimensionChangeListeners g @ [callback] \<rparr>"

definition getTableId :: "gstate \<Rightarrow> string" where
  "getTableId g = table_id g"

definition setStakeAmount :: "real \<Rightarrow> gstate \<Rightarrow> gstate" where
  "setStakeAmount amount g = g\<lparr> stakeAmount := amount, ops := ops g @ [SetStakeAmount amount] \<rparr>"

definition setRoundId :: "string option \<Rightarrow> gstate \<Rightarrow> gstate" where
  "setRoundId rid g = g\<lparr> roundId := rid, ops := ops g @ [SetRoundId rid] \<rparr>"

definition setCurrentRow :: "jsnum \<Rightarrow> gstate \<Rightarrow> gstate" where
  "setCurrentRow row g = g\<lparr> current_row := row, ops := ops g @ [SetCurrentRow row] \<rparr>"

definition setGameMatrix :: "string list list \<Rightarrow> gstate \<Rightarrow> gstate" where
  "setGameMatrix matrix g = g\<lparr> game_matrix := matrix, ops := ops g @ [SetGameMatrix matrix] \<rparr>"

definition setReward :: "real \<Rightarrow> gstate \<Rightarrow> gstate" where
  "setReward newReward g = g\<lparr> reward := newReward, ops := ops g @ [SetReward newReward] \<rparr>"

text \<open>\<open>addPendingGameRestoreListener\<close> pushes the listener at the end of its array.\<close>

definition addPendingGameRestoreListener :: "listener \<Rightarrow> gstate \<Rightarrow> gstate" where
  "addPendingGameRestoreListener l g =
     g\<lparr> pendingGameRestoreListeners := pendingGameRestoreListeners g @ [l] \<rparr>"

text \<open>
  The closure that \<open>addPendingGameRestoreListener\<close> returns: \<open>indexOf\<close> finds the first
  entry that is the same function, \<open>splice\<close> removes that one entry.
\<close>

fun remove_first :: "nat \<Rightarrow> listener list \<Rightarrow> listener list" where
  "remove_first i [] = []"
| "remove_first i (l # ls) = (if l_id l = i then ls else l # remove_first i ls)"

definition unsubscribePendingGameRestore :: "listener \<Rightarrow> gstate \<Rightarrow> gstate" where
  "unsubscribePendingGameRestore l g =
     g\<lparr> pendingGameRestoreListeners := remove_first (l_id l) (pendingGameRestoreListeners g) \<rparr>"

definition addPendingGameRestoreCompleteListener :: "listener \<Rightarrow> gstate \<Rightarrow> gstate" where
  "addPendingGameRestoreCompleteListener l g =
     g\<lparr> pendingGameRestoreCompleteListeners := pendingGameRestoreCompleteListeners g @ [l] \<rparr>"

text \<open>
  \<open>triggerPendingGameRestore\<close> is the placeholder of the source: its body is one
  \<open>console.log\<close> and a comment; it reads and writes no variable of the module.
\<close>

definition triggerPendingGameRestore :: "gstate \<Rightarrow> gstate" where
  "triggerPendingGameRestore g = g"

text \<open>Registering a list of listeners, one call of \<open>addPendingGameRestoreListener\<close> each.\<close>

fun register_restore :: "listener list \<Rightarrow> gstate \<Rightarrow> gstate" where
  "register_restore [] g = g"
| "register_restore (l # ls) g = register_restore ls (addPendingGameRestoreListener l g)"

text \<open>
  The invocations that the specification asks of \<open>triggerPendingGameRestore\<close>: every
  registered restore listener, once, in registration order.
\<close>

definition specified_trigger_fired :: "gstate \<Rightarrow> notification list" where
  "specified_trigger_fired g =
     fired g @ map (\<lambda>l. PendingGameRestoreFired (l_id l)) (pendingGameRestoreListeners g)"

section \<open>WebSocketService.ts: the transport connection\<close>

text \<open>A decoded JSON text. Objects are the parsed ones: each key occurs once.\<close>

datatype json =
    JNull
  | JBool bool
  | JNum int
  | JStr string
  | JArr "json list"
  | JObj "(string \<times> json) list"

text \<open>
  \<open>v.k\<close> on a value that is not \<open>null\<close>: the member of an object, \<open>undefined\<close> (\<open>None\<close>)
  when the object has no such key or the value is a primitive or an array (the keys read
  by the service are \<open>data\<close>, \<open>status\<close>, \<open>operation\<close>, \<open>event\<close> and
  \<open>mineSweeperAmounts\<close>). On \<open>null\<close> the access throws; the callers test for it first.
\<close>

fun field :: "json \<Rightarrow> string \<Rightarrow> json option" where
  "field (JObj kvs) k = map_of kvs k"
| "field _ k = None"

fun truthy :: "json \<Rightarrow> bool" where
  "truthy JNull = False"
| "truthy (JBool b) = b"
| "truthy (JNum n) = (n \<noteq> 0)"
| "truthy (JStr s) = (s \<noteq> [])"
| "truthy (JArr xs) = True"
| "truthy (JObj kvs) = True"

fun truthy_val :: "json option \<Rightarrow> bool" where
  "truthy_val None = False"
| "truthy_val (Some v) = truthy v"

text \<open>\<open>a || b\<close>.\<close>

definition js_or :: "json option \<Rightarrow> json option \<Rightarrow> json option" where
  "js_or a b = (if truthy_val a then a else b)"

fun isArray :: "json option \<Rightarrow> bool" where
  "isArray (Some (JArr xs)) = True"
| "isArray _ = False"

datatype ready_state = CONNECTING | OPEN | CLOSING | CLOSED

text \<open>
  A callback handed to \<open>on\<close> or \<open>once\<close>: its identity, and whether its call number \<open>n\<close>
  (counting from 0) with a given argument throws. What the callback does to the rest of
  the page is not modelled; it is taken not to change the handler table itself.
\<close>

record callback =
  cb_id :: nat
  cb_throws :: "nat \<Rightarrow> json \<Rightarrow> bool"

text \<open>
  What the handler table holds: the callback given to \<open>on\<close>, or the closure
  \<open>onceCallback\<close> that \<open>once\<close> builds around its event key and callback.
\<close>

datatype handler = Plain callback | OnceCallback string callback

fun handler_id :: "handler \<Rightarrow> nat" where
  "handler_id (Plain cb) = cb_id cb"
| "handler_id (OnceCallback event cb) = cb_id cb"

text \<open>
  The fields of the service and of its socket. \<open>sent\<close> lists the arguments of
  \<open>socket.send\<close> and \<open>calls\<close> the callback invocations with their argument, both in order.
\<close>

record ws_state =
  readyState :: ready_state
  listeners :: "string \<rightharpoonup> handler"
  queue :: "(string \<times> json) list"
  isConnected :: bool
  sent :: "string list"
  calls :: "(nat \<times> json) list"

definition reconnectDelay :: nat where "reconnectDelay = 1000"

definition isSocketConnected :: "ws_state \<Rightarrow> bool" where
  "isSocketConnected s = (isConnected s \<and> readyState s = OPEN)"

text \<open>
  \<open>send\<close>. \<open>JSON_stringify\<close> is the platform's serializer, a parameter of the model.
\<close>

definition send :: "(json \<Rightarrow> string) \<Rightarrow> string \<Rightarrow> json \<Rightarrow> ws_state \<Rightarrow> ws_state" where
  "send JSON_stringify event data s =
     (let msg = JSON_stringify data
      in if isConnected s \<and> readyState s = OPEN
         then s\<lparr> sent := sent s @ [msg] \<rparr>
         else s\<lparr> queue := queue s @ [(event, data)] \<rparr>)"

definition on :: "string \<Rightarrow> handler \<Rightarrow> ws_state \<Rightarrow> ws_state" where
  "on event h s = s\<lparr> listeners := (listeners s)(event \<mapsto> h) \<rparr>"

definition off :: "string \<Rightarrow> ws_state \<Rightarrow> ws_state" where
  "off event s = s\<lparr> listeners := (listeners s)(event := None) \<rparr>"

definition once :: "string \<Rightarrow> callback \<Rightarrow> ws_state \<Rightarrow> ws_state" where
  "once event cb s = on event (OnceCallback event cb) s"

text \<open>
  The loop of \<open>onopen\<close>: while the queue is not empty, shift its first entry and \<open>send\<close>
  it (the entry is an object, so the test \<open>if (msg)\<close> holds). \<open>send\<close> pushes the entry
  back when the connection is not open, so the loop need not end: not returning is the
  value \<open>None\<close>.
\<close>

partial_function (option) drain :: "(json \<Rightarrow> string) \<Rightarrow> ws_state \<Rightarrow> ws_state option" where
  "drain JSON_stringify s =
     (case queue s of
        [] \<Rightarrow> Some s
      | msg # rest \<Rightarrow>
          drain JSON_stringify (send JSON_stringify (fst msg) (snd msg) (s\<lparr> queue := rest \<rparr>)))"

definition onopen :: "(json \<Rightarrow> string) \<Rightarrow> ws_state \<Rightarrow> ws_state option" where
  "onopen JSON_stringify s = drain JSON_stringify (s\<lparr> isConnected := True \<rparr>)"

text \<open>The open transition: the socket becomes \<open>OPEN\<close> and its \<open>onopen\<close> handler runs.\<close>

definition socket_opens :: "(json \<Rightarrow> string) \<Rightarrow> ws_state \<Rightarrow> ws_state option" where
  "socket_opens JSON_stringify s = onopen JSON_stringify (s\<lparr> readyState := OPEN \<rparr>)"

definition onclose :: "ws_state \<Rightarrow> ws_state" where
  "onclose s = s\<lparr> isConnected := False \<rparr>"

text \<open>A run of \<open>send\<close> calls, in order.\<close>

fun sends :: "(json \<Rightarrow> string) \<Rightarrow> (string \<times> json) list \<Rightarrow> ws_state \<Rightarrow> ws_state" where
  "sends JSON_stringify [] s = s"
| "sends JSON_stringify (c # cs) s = sends JSON_stringify cs (send JSON_stringify (fst c) (snd c) s)"

datatype completion = Normal | Throw

definition count_calls :: "nat \<Rightarrow> (nat \<times> json) list \<Rightarrow> nat" where
  "count_calls i cs = length (filter (\<lambda>c. fst c = i) cs)"

text \<open>
  Calling a table entry with \<open>data\<close>. The closure of \<open>once\<close> is
  \<open>(data) => { callback(data); this.off(event); }\<close>: when the callback throws, the
  exception leaves the closure before \<open>off\<close>.
\<close>

fun invoke :: "handler \<Rightarrow> json \<Rightarrow> ws_state \<Rightarrow> completion \<times> ws_state" where
  "invoke (Plain cb) data s =
     (if cb_throws cb (count_calls (cb_id cb) (calls s)) data
      then (Throw, s\<lparr> calls := calls s @ [(cb_id cb, data)] \<rparr>)
      else (Normal, s\<lparr> calls := calls s @ [(cb_id cb, data)] \<rparr>))"
| "invoke (OnceCallback event cb) data s =
     (if cb_throws cb (count_calls (cb_id cb) (calls s)) data
      then (Throw, s\<lparr> calls := calls s @ [(cb_id cb, data)] \<rparr>)
      else (Normal, off event (s\<lparr> calls := calls s @ [(cb_id cb, data)] \<rparr>)))"

text \<open>
  What \<open>onmessage\<close> works on: the service, the store, and the page's
  \<open>window.logoutUser\<close> (\<open>None\<close> when the page defines none, \<open>Some t\<close> for a function
  whose call throws iff \<open>t\<close>). \<open>logouts\<close> counts the calls of the hook and
  \<open>invalid_messages\<close> keeps the frames logged by the catch block.
\<close>

record page =
  service :: ws_state
  GlobalState :: gstate
  logoutUser :: "bool option"
  logouts :: nat
  invalid_messages :: "string list"

text \<open>\<open>msg.data && msg.data.status === "401 Session Expired"\<close>.\<close>

definition session_expired :: "json \<Rightarrow> bool" where
  "session_expired msg =
     (case field msg ''data'' of
        None \<Rightarrow> False
      | Some d \<Rightarrow> truthy d \<and> field d ''status'' = Some (JStr ''401 Session Expired''))"

text \<open>
  \<open>msg.operation === "info" && msg.mineSweeperAmounts && Array.isArray(msg.mineSweeperAmounts)\<close>:
  the amounts are read at the top level of the frame.
\<close>

definition info_with_amounts :: "json \<Rightarrow> bool" where
  "info_with_amounts msg =
     (field msg ''operation'' = Some (JStr ''info'')
      \<and> truthy_val (field msg ''mineSweeperAmounts'')
      \<and> isArray (field msg ''mineSweeperAmounts''))"

text \<open>\<open>msg.event || msg.operation\<close>.\<close>

definition eventKey :: "json \<Rightarrow> json option" where
  "eventKey msg = js_or (field msg ''event'') (field msg ''operation'')"

text \<open>\<open>msg.data || msg\<close>, the argument of the handler.\<close>

definition payload :: "json \<Rightarrow> json" where
  "payload msg = (case js_or (field msg ''data'') (Some msg) of Some v \<Rightarrow> v | None \<Rightarrow> msg)"

text \<open>
  \<open>this.listeners.has(eventKey)\<close> and \<open>get\<close>: the keys of the table are strings, so a key
  of another type finds nothing.
\<close>

fun lookup :: "(string \<rightharpoonup> handler) \<Rightarrow> json option \<Rightarrow> handler option" where
  "lookup m (Some (JStr k)) = m k"
| "lookup m _ = None"

text \<open>
  The body of the \<open>try\<close> block, after \<open>JSON.parse\<close>. In order: the first member access
  throws on \<open>null\<close>; an expiry frame calls the logout hook when the page has one and
  returns; an info frame with a top-level amounts array calls \<open>GlobalState.setBetSteps\<close>,
  which the \<open>GlobalState\<close> object of gameState.ts does not define, so the call throws a
  TypeError; otherwise the handler of the dispatch key, if any, is called.
\<close>

definition onmessage_try :: "json \<Rightarrow> page \<Rightarrow> completion \<times> page" where
  "onmessage_try msg p =
     (if msg = JNull then (Throw, p)
      else if session_expired msg then
        (case logoutUser p of
           None \<Rightarrow> (Normal, p)
         | Some t \<Rightarrow> (if t then Throw else Normal, p\<lparr> logouts := logouts p + 1 \<rparr>))
      else if info_with_amounts msg then (Throw, p)
      else if truthy_val (eventKey msg) then
        (case lookup (listeners (service p)) (eventKey msg) of
           None \<Rightarrow> (Normal, p)
         | Some h \<Rightarrow>
             (case invoke h (payload msg) (service p) of
                (c, s') \<Rightarrow> (c, p\<lparr> service := s' \<rparr>)))
      else (Normal, p))"

text \<open>
  \<open>onmessage\<close>: \<open>JSON_parse\<close> is the platform's parser (\<open>None\<close> when it throws). Any
  exception of the \<open>try\<close> block ends in the catch block, which logs the frame.
\<close>

definition onmessage :: "(string \<Rightarrow> json option) \<Rightarrow> string \<Rightarrow> page \<Rightarrow> page" where
  "onmessage JSON_parse raw p =
     (case JSON_parse raw of
        None \<Rightarrow> p\<lparr> invalid_messages := invalid_messages p @ [raw] \<rparr>
      | Some msg \<Rightarrow>
          (case onmessage_try msg p of
             (Throw, p') \<Rightarrow> p'\<lparr> invalid_messages := invalid_messages p' @ [raw] \<rparr>
           | (Normal, p') \<Rightarrow> p'))"

text \<open>The service right after its constructor: the socket is connecting.\<close>

definition initial_ws :: ws_state where
  "initial_ws =
     \<lparr> readyState = CONNECTING, listeners = Map.empty, queue = [], isConnected = False,
       sent = [], calls = [] \<rparr>"

definition initial_page :: page where
  "initial_page =
     \<lparr> service = initial_ws, GlobalState = initial_gstate, logoutUser = None, logouts = 0,
       invalid_messages = [] \<rparr>"

section \<open>main.ts: pending-round classification and restoration\<close>

text \<open>
  A member that the code compares with \<open>undefined\<close>: absent, JSON \<open>null\<close>, or a value.
\<close>

datatype 'a member = Absent | Null | Value 'a

text \<open>
  The answer to \<open>minesweeper_game_load\<close> as the handler reads it, typed as the wire
  contract gives it. For the members that the code only tests for truthiness or
  compares with a constant, \<open>None\<close> is a member that is absent or \<open>null\<close>. The reported
  row is also tested with \<open>!== undefined\<close>, so it keeps the three cases apart; it is an
  integer row index.
\<close>

record game_load_response =
  res_status :: "string option"
  res_hasExistingGame :: "bool option"
  res_currentRow :: "int member"
  res_gameOver :: "bool option"
  res_roundId :: "string option"
  res_revealedMatrix :: "string list list option"
  res_gridOption :: "string option"
  res_betAmount :: "real option"
  res_rowRewards :: "real list option"

text \<open>
  \<open>parseInt(x)\<close> without a radix, on strings of 8-bit characters: leading white space is
  skipped, one sign is read, a \<open>0x\<close> or \<open>0X\<close> prefix selects radix 16, and the longest
  run of digits is the value; no digit gives \<open>NaN\<close>. The platform rounds a value beyond
  the safe integers to a double; the model has no result there (\<open>None\<close>).
\<close>

definition is_ws :: "char \<Rightarrow> bool" where
  "is_ws c = (of_char c \<in> {9, 10, 11, 12, 13, 32, 160 :: nat})"

definition digit_value :: "nat \<Rightarrow> char \<Rightarrow> nat option" where
  "digit_value R c =
     (let n = (of_char c :: nat);
          v = (if 48 \<le> n \<and> n \<le> 57 then Some (n - 48)
               else if 97 \<le> n \<and> n \<le> 122 then Some (n - 87)
               else if 65 \<le> n \<and> n \<le> 90 then Some (n - 55)
               else None)
      in case v of None \<Rightarrow> None | Some d \<Rightarrow> if d < R then Some d else None)"

definition digits_value :: "nat \<Rightarrow> string \<Rightarrow> nat" where
  "digits_value R Z =
     foldl (\<lambda>acc c. acc * R + (case digit_value R c of Some d \<Rightarrow> d | None \<Rightarrow> 0)) 0 Z"

definition parseInt :: "string \<Rightarrow> jsnum option" where
  "parseInt str =
     (let s1 = dropWhile is_ws str;
          negative = (s1 \<noteq> [] \<and> hd s1 = CHR ''-'');
          s2 = (if s1 \<noteq> [] \<and> (hd s1 = CHR ''+'' \<or> hd s1 = CHR ''-'') then tl s1 else s1);
          hex = (take 2 s2 = ''0x'' \<or> take 2 s2 = ''0X'');
          R = (if hex then 16 else 10);
          s3 = (if hex then drop 2 s2 else s2);
          Z = takeWhile (\<lambda>c. digit_value R c \<noteq> None) s3
      in if Z = [] then Some NaN
         else if int (digits_value R Z) > MAX_SAFE_INTEGER then None
         else if negative then Some (Num (- int (digits_value R Z)))
         else Some (Num (int (digits_value R Z))))"

text \<open>\<open>str.split("x")\<close>: the pieces between the occurrences of \<open>x\<close>; never empty.\<close>

fun split_x :: "string \<Rightarrow> string list" where
  "split_x [] = [[]]"
| "split_x (c # cs) =
     (if c = CHR ''x'' then [] # split_x cs
      else (case split_x cs of [] \<Rightarrow> [[c]] | w # ws \<Rightarrow> (c # w) # ws))"

text \<open>An element of a destructured array: \<open>undefined\<close> beyond its end.\<close>

definition element :: "jsnum option list \<Rightarrow> nat \<Rightarrow> jsnum option" where
  "element xs i = (if i < length xs then xs ! i else Some Undefined)"

text \<open>
  \<open>const [cols, rows] = gridOption.split("x").map((x) => parseInt(x))\<close>: the two numbers
  bound; no result when one of the two is beyond the safe integers.
\<close>

definition parse_gridOption :: "string \<Rightarrow> (jsnum \<times> jsnum) option" where
  "parse_gridOption opt =
     (let parts = map parseInt (split_x opt)
      in case element parts 0 of
           None \<Rightarrow> None
         | Some cols \<Rightarrow>
             (case element parts 1 of
                None \<Rightarrow> None
              | Some rows \<Rightarrow> Some (cols, rows)))"

definition PENDING_GAME_RESTORE_DELAY :: nat where "PENDING_GAME_RESTORE_DELAY = 500"

text \<open>The callbacks that main.ts hands to \<open>setTimeout\<close>.\<close>

datatype timer_action = TriggerPendingGameRestore

fun run_timer :: "timer_action \<Rightarrow> gstate \<Rightarrow> gstate" where
  "run_timer TriggerPendingGameRestore g = triggerPendingGameRestore g"

text \<open>
  \<open>GlobalState.total_rows - 1 - gameData.currentRow\<close>, for a row that is not
  \<open>undefined\<close>: \<open>null\<close> counts as \<open>0\<close> in the subtraction.
\<close>

fun row_operand :: "int member \<Rightarrow> jsnum" where
  "row_operand (Value r) = Num r"
| "row_operand Null = Num 0"
| "row_operand Absent = Undefined"

definition frontendCurrentRow :: "jsnum \<Rightarrow> int member \<Rightarrow> jsnum option" where
  "frontendCurrentRow rows currentRow =
     (case js_sub rows (Num 1) of
        None \<Rightarrow> None
      | Some d \<Rightarrow> js_sub d (row_operand currentRow))"

text \<open>
  \<open>restorePendingGame\<close>: the new store and the timers it sets. The guards of the matrix,
  the grid string and the bet amount are JavaScript truthiness tests: an empty
  \<open>gridOption\<close> and a \<open>betAmount\<close> of \<open>0\<close> are skipped like absent ones. The reported row
  is compared with \<open>undefined\<close>, so a \<open>null\<close> row is applied too. The result is \<open>None\<close>
  when a number parsed or computed on the way is beyond the safe integers.
\<close>

definition restorePendingGame ::
  "game_load_response \<Rightarrow> gstate \<Rightarrow> (gstate \<times> (nat \<times> timer_action) list) option" where
  "restorePendingGame gameData g =
     (let g1 = (case res_revealedMatrix gameData of
                  None \<Rightarrow> g
                | Some m \<Rightarrow> setGameMatrix m g);
          grid = (case res_gridOption gameData of
                    None \<Rightarrow> Some g1
                  | Some opt \<Rightarrow>
                      if opt \<noteq> []
                      then (case parse_gridOption opt of
                              None \<Rightarrow> None
                            | Some (cols, rows) \<Rightarrow> Some (setGridDimensions cols rows g1))
                      else Some g1)
      in case grid of
           None \<Rightarrow> None
         | Some g2 \<Rightarrow>
             (let g3 = (case res_betAmount gameData of
                          None \<Rightarrow> g2
                        | Some b \<Rightarrow> if b \<noteq> 0 then setStakeAmount b g2 else g2);
                  g4 = setRoundId (res_roundId gameData) g3;
                  row = (if res_currentRow gameData \<noteq> Absent
                         then (case frontendCurrentRow (total_rows g4) (res_currentRow gameData) of
                                 None \<Rightarrow> None
                               | Some frontendRow \<Rightarrow> Some (setCurrentRow frontendRow g4))
                         else Some g4)
              in case row of
                   None \<Rightarrow> None
                 | Some g5 \<Rightarrow>
                     (let calculatedReward =
                            (case res_rowRewards gameData of
                               None \<Rightarrow> 0
                             | Some rs \<Rightarrow>
                                 if length rs > 0 then (if last rs \<noteq> 0 then last rs else 0)
                                 else 0);
                          g6 = setReward calculatedReward g5;
                          g7 = setGameStarted True g6
                      in Some (g7, [(PENDING_GAME_RESTORE_DELAY, TriggerPendingGameRestore)]))))"

text \<open>
  The handler that \<open>checkForPendingGames\<close> registers for \<open>minesweeper_game_load\<close>, with
  its local constants. The result is the value the promise is resolved with, and the
  store with the timers set (what \<open>restorePendingGame\<close> gives, when it restores).
\<close>

definition backendCurrentRow :: "game_load_response \<Rightarrow> int" where
  "backendCurrentRow res =
     (case res_currentRow res of
        Absent \<Rightarrow> 0
      | Null \<Rightarrow> 0
      | Value r \<Rightarrow> if r \<noteq> 0 then r else 0)"

definition totalRows :: "gstate \<Rightarrow> int" where
  "totalRows g = (case total_rows g of Num n \<Rightarrow> if n \<noteq> 0 then n else 6 | _ \<Rightarrow> 6)"

definition isGameCompleted :: "game_load_response \<Rightarrow> gstate \<Rightarrow> bool" where
  "isGameCompleted res g =
     (backendCurrentRow res \<ge> totalRows g - 1 \<or> res_gameOver res = Some True)"

definition hasValidRoundId :: "game_load_response \<Rightarrow> bool" where
  "hasValidRoundId res = (case res_roundId res of None \<Rightarrow> False | Some r \<Rightarrow> r \<noteq> [])"

definition on_minesweeper_game_load ::
  "game_load_response \<Rightarrow> gstate \<Rightarrow>
     bool \<times> (gstate \<times> (nat \<times> timer_action) list) option" where
  "on_minesweeper_game_load res g =
     (if res_status res = Some ''400'' then (False, Some (g, []))
      else if res_status res = Some ''200 OK'' then
        (if res_hasExistingGame res = Some True then
           (if isGameCompleted res g \<or> \<not> hasValidRoundId res then (False, Some (g, []))
            else (True, restorePendingGame res g))
         else (False, Some (g, [])))
      else (False, Some (g, [])))"


text \<open>The same calls under the guards of the code (non-empty string, non-zero amount).\<close>

definition restore_ops ::
  "game_load_response \<Rightarrow> jsnum \<Rightarrow> jsnum \<Rightarrow> jsnum \<Rightarrow> store_op list" where
  "restore_ops gameData cols rows row =
     (case res_revealedMatrix gameData of None \<Rightarrow> [] | Some m \<Rightarrow> [SetGameMatrix m])
     @ (case res_gridOption gameData of
          None \<Rightarrow> []
        | Some opt \<Rightarrow> if opt = [] then [] else [SetGridDimensions cols rows])
     @ (case res_betAmount gameData of
          None \<Rightarrow> []
        | Some b \<Rightarrow> if b = 0 then [] else [SetStakeAmount b])
     @ [SetRoundId (res_roundId gameData)]
     @ (if res_currentRow gameData = Absent then [] else [SetCurrentRow row])
     @ [SetReward (case res_rowRewards gameData of
                     None \<Rightarrow> 0
                   | Some rs \<Rightarrow> if rs = [] then 0 else last rs)]
     @ [SetGameStarted True]"

text \<open>
  A reported row for which the row arithmetic stays within the safe integers whenever the
  store has between 0 and \<open>MAX_SAFE_INTEGER\<close> rows.
\<close>

fun row_in_range :: "int member \<Rightarrow> bool" where
  "row_in_range (Value r) = (0 \<le> r \<and> r < MAX_SAFE_INTEGER)"
| "row_in_range Null = True"
| "row_in_range Absent = True"

text \<open>The decimal numeral of a natural number, as it stands in a \<open>COLSxROWS\<close> string.\<close>

fun decimal :: "nat \<Rightarrow> string" where
  "decimal n =
     (if n < 10 then [char_of (48 + n)]
      else decimal (n div 10) @ [char_of (48 + n mod 10)])"

text \<open>The characters \<open>0\<close> to \<open>9\<close>.\<close>

definition is_dec :: "char \<Rightarrow> bool" where
  "is_dec c = (48 \<le> (of_char c :: nat) \<and> (of_char c :: nat) \<le> 57)"

declare decimal.simps [simp del]

section \<open>Concrete inputs\<close>

text \<open>A pending round as the server reports it: grid 5x6, third row from the top.\<close>

definition sample_response :: game_load_response where
  "sample_response =
     \<lparr> res_status = Some ''200 OK'',
       res_hasExistingGame = Some True,
       res_currentRow = Value 2,
       res_gameOver = None,
       res_roundId = Some ''R-1807'',
       res_revealedMatrix = Some [[''safe'', ''hidden''], [''hidden'', ''hidden'']],
       res_gridOption = Some ''5x6'',
       res_betAmount = Some 2,
       res_rowRewards = Some [10, 20, 35] \<rparr>"

text \<open>Inbound frames after parsing.\<close>

definition balance_frame :: json where
  "balance_frame =
     JObj [(''operation'', JStr ''getbalance''), (''data'', JObj [(''balance'', JNum 100)])]"

definition expiry_frame :: json where
  "expiry_frame =
     JObj [(''operation'', JStr ''getbalance''),
           (''data'', JObj [(''status'', JStr ''401 Session Expired'')])]"

definition info_frame_nested :: json where
  "info_frame_nested =
     JObj [(''operation'', JStr ''info''),
           (''data'', JObj [(''mineSweeperAmounts'', JArr [JNum 1, JNum 2, JNum 5])])]"

definition info_frame_top :: json where
  "info_frame_top =
     JObj [(''operation'', JStr ''info''),
           (''mineSweeperAmounts'', JArr [JNum 1, JNum 2, JNum 5])]"

text \<open>Two callbacks that return normally and one that throws on its first call only.\<close>

definition cb1 :: callback where
  "cb1 = \<lparr> cb_id = 1, cb_throws = (\<lambda>n d. False) \<rparr>"

definition cb2 :: callback where
  "cb2 = \<lparr> cb_id = 2, cb_throws = (\<lambda>n d. False) \<rparr>"

definition cb_throws_first :: callback where
  "cb_throws_first = \<lparr> cb_id = 3, cb_throws = (\<lambda>n d. n = 0) \<rparr>"

text \<open>Two outbound commands of the bootstrap.\<close>

definition balance_request :: "string \<times> json" where
  "balance_request = (''getbalance'', JObj [(''operation'', JStr ''getbalance'')])"

definition load_request :: "string \<times> json" where
  "load_request =
     (''minesweeper_game_load'',
      JObj [(''operation'', JStr ''minesweeper_game_load''),
            (''data'', JObj [(''tableId'', JStr ''STGMS101'')])])"

text \<open>
  A stand-in for the serializer at these commands: it writes the operation name only.
\<close>

fun operation_name :: "json \<Rightarrow> string" where
  "operation_name (JObj ((k, JStr v) # kvs)) = v"
| "operation_name _ = ''?''"

section \<open>Properties of the store\<close>

lemma fire_all_eq:
  "fire_all mk ls g =
     g\<lparr> fired := fired g @ map (\<lambda>l. mk (l_id l)) ls,
         listener_errors := listener_errors g + length (filter l_throws ls) \<rparr>"
  by (induction ls arbitrary: g) simp_all

lemma setGridDimensions_eq:
  "setGridDimensions cols rows g =
     g\<lparr> total_cols := cols, total_rows := rows,
         ops := ops g @ [SetGridDimensions cols rows],
         fired := fired g @
           (if strict_neq (total_cols g) cols \<or> strict_neq (total_rows g) rows
            then map (\<lambda>l. GridDimensionFired (l_id l) cols rows) (gridDimensionChangeListeners g)
            else []),
         listener_errors := listener_errors g +
           (if strict_neq (total_cols g) cols \<or> strict_neq (total_rows g) rows
            then length (filter l_throws (gridDimensionChangeListeners g)) else 0) \<rparr>"
  by (simp add: setGridDimensions_def Let_def fire_all_eq)

lemma setGameStarted_eq:
  "setGameStarted started g =
     g\<lparr> gameStarted := started,
         ops := ops g @ [SetGameStarted started],
         fired := fired g @
           (if started \<and> \<not> gameStarted g
            then map (\<lambda>l. GameStartedFired (l_id l)) (gameStartedListeners g)
            else if \<not> started \<and> gameStarted g
            then map (\<lambda>l. GameEndedFired (l_id l)) (gameEndedListeners g)
            else []),
         listener_errors := listener_errors g +
           (if started \<and> \<not> gameStarted g then length (filter l_throws (gameStartedListeners g))
            else if \<not> started \<and> gameStarted g then length (filter l_throws (gameEndedListeners g))
            else 0) \<rparr>"
  by (simp add: setGameStarted_def Let_def fire_all_eq)

lemma register_restore_eq:
  "register_restore ls g =
     g\<lparr> pendingGameRestoreListeners := pendingGameRestoreListeners g @ ls \<rparr>"
  by (induction ls arbitrary: g) (simp_all add: addPendingGameRestoreListener_def)

text \<open>
  C8. \<open>setGameStarted flag\<close> stores the flag; it calls every game-started listener, in
  registration order and once each, exactly when the flag goes from false to true, every
  game-ended listener exactly when it goes from true to false, and no listener when the
  stored value stays the same. A listener that throws is counted and does not stop the
  others. A second \<open>setGameStarted true\<close> right after the first calls nothing more.
\<close>

theorem setGameStarted_fires_on_transition:
  "gameStarted (setGameStarted flag g) = flag
   \<and> fired (setGameStarted flag g) =
       fired g @
         (if flag \<and> \<not> gameStarted g
          then map (\<lambda>l. GameStartedFired (l_id l)) (gameStartedListeners g)
          else if \<not> flag \<and> gameStarted g
          then map (\<lambda>l. GameEndedFired (l_id l)) (gameEndedListeners g)
          else [])
   \<and> fired (setGameStarted True (setGameStarted True g)) = fired (setGameStarted True g)
   \<and> fired (setGameStarted flag (addGameStartedListener a (addGameStartedListener b g))) =
       fired g @
         (if flag \<and> \<not> gameStarted g
          then map (\<lambda>l. GameStartedFired (l_id l)) (gameStartedListeners g)
                 @ [GameStartedFired (l_id b), GameStartedFired (l_id a)]
          else if \<not> flag \<and> gameStarted g
          then map (\<lambda>l. GameEndedFired (l_id l)) (gameEndedListeners g)
          else [])"
  by (simp add: setGameStarted_eq addGameStartedListener_def)

text \<open>
  C1, as the specification states it: \<open>triggerPendingGameRestore\<close> calls the registered
  restore listeners in registration order. With two listeners registered on the initial
  store the call records no invocation, where the specification asks for two.
\<close>

theorem triggerPendingGameRestore_counterexample:
  "fired (triggerPendingGameRestore
            (register_restore [\<lparr> l_id = 1, l_throws = False \<rparr>, \<lparr> l_id = 2, l_throws = True \<rparr>]
               initial_gstate)) = []
   \<and> fired (triggerPendingGameRestore
            (register_restore [\<lparr> l_id = 1, l_throws = False \<rparr>, \<lparr> l_id = 2, l_throws = True \<rparr>]
               initial_gstate))
       \<noteq> specified_trigger_fired
            (register_restore [\<lparr> l_id = 1, l_throws = False \<rparr>, \<lparr> l_id = 2, l_throws = True \<rparr>]
               initial_gstate)"
  by (simp add: triggerPendingGameRestore_def specified_trigger_fired_def register_restore_eq
      initial_gstate_def)

text \<open>
  C1, amended: \<open>triggerPendingGameRestore\<close> is a placeholder. Whatever listeners were
  registered with \<open>addPendingGameRestoreListener\<close>, the call invokes none of them, logs
  no listener error, and leaves them registered in registration order; so does the timer
  that \<open>restorePendingGame\<close> sets.
\<close>

theorem triggerPendingGameRestore_calls_no_listener:
  "fired (triggerPendingGameRestore (register_restore ls g)) = fired g
   \<and> listener_errors (triggerPendingGameRestore (register_restore ls g)) = listener_errors g
   \<and> pendingGameRestoreListeners (triggerPendingGameRestore (register_restore ls g)) =
       pendingGameRestoreListeners g @ ls
   \<and> run_timer TriggerPendingGameRestore (register_restore ls g) = register_restore ls g"
  by (simp add: triggerPendingGameRestore_def register_restore_eq)

section \<open>Properties of the transport connection\<close>

lemma sends_closed:
  "\<not> (isConnected s \<and> readyState s = OPEN) \<Longrightarrow>
   sends f cmds s = s\<lparr> queue := queue s @ cmds \<rparr>"
  by (induction cmds arbitrary: s) (auto simp: send_def)

text \<open>On an open connection the loop of \<open>onopen\<close> ends, having sent the whole queue.\<close>

lemma drain_open:
  "isConnected s \<Longrightarrow> readyState s = OPEN \<Longrightarrow> queue s = q \<Longrightarrow>
   drain f s = Some (s\<lparr> queue := [], sent := sent s @ map (\<lambda>c. f (snd c)) q \<rparr>)"
proof (induction q arbitrary: s)
  case Nil
  then show ?case by (subst drain.simps) simp
next
  case (Cons c q)
  let ?s1 = "send f (fst c) (snd c) (s\<lparr> queue := q \<rparr>)"
  have s1: "?s1 = s\<lparr> queue := q, sent := sent s @ [f (snd c)] \<rparr>"
    using Cons.prems by (simp add: send_def)
  have "drain f s = drain f ?s1"
    using Cons.prems by (subst drain.simps) simp
  also have "\<dots> = Some (?s1\<lparr> queue := [], sent := sent ?s1 @ map (\<lambda>c. f (snd c)) q \<rparr>)"
    by (rule Cons.IH) (simp_all add: s1 Cons.prems)
  finally show ?case by (simp add: s1)
qed

text \<open>
  C2. While the connection is not open, a run of \<open>send\<close> calls appends its commands to the
  queue, in call order, and hands nothing to the socket. The open transition that follows
  returns, has sent the serialization of every queued command exactly once in queue
  order (so \<open>N\<close> more frames for \<open>N\<close> calls), and leaves the queue empty.
\<close>

theorem queued_sends_flush_in_order:
  assumes "\<not> (isConnected s \<and> readyState s = OPEN)"
  shows "queue (sends f cmds s) = queue s @ cmds
     \<and> sent (sends f cmds s) = sent s
     \<and> (\<exists>s'. socket_opens f (sends f cmds s) = Some s'
            \<and> sent s' = sent s @ map (\<lambda>c. f (snd c)) (queue s @ cmds)
            \<and> length (sent s') = length (sent s) + length (queue s) + length cmds
            \<and> queue s' = [])"
  using assms by (simp add: sends_closed socket_opens_def onopen_def drain_open)

theorem queued_sends_flush_in_order_witness:
  "\<not> (isConnected initial_ws \<and> readyState initial_ws = OPEN)
   \<and> queue (sends operation_name [balance_request, load_request] initial_ws) =
       [balance_request, load_request]
   \<and> sent (sends operation_name [balance_request, load_request] initial_ws) = []
   \<and> (\<exists>s'. socket_opens operation_name
               (sends operation_name [balance_request, load_request] initial_ws) = Some s'
            \<and> sent s' = [''getbalance'', ''minesweeper_game_load'']
            \<and> length (sent s') = 2
            \<and> queue s' = [])"
proof -
  have closed: "\<not> (isConnected initial_ws \<and> readyState initial_ws = OPEN)"
    by (simp add: initial_ws_def)
  from queued_sends_flush_in_order [OF closed, of operation_name "[balance_request, load_request]"]
  show ?thesis
    using closed by (auto simp: initial_ws_def balance_request_def load_request_def send_def)
qed

text \<open>
  C9. On an open connection \<open>send\<close> hands the socket exactly the serialization of the
  data argument and queues nothing; the event key has no influence on the resulting
  state, so two calls with equal data and different keys transmit the same frame.
\<close>

theorem send_open_transmits_data_only:
  assumes "isConnected s" and "readyState s = OPEN"
  shows "sent (send f event d s) = sent s @ [f d]
     \<and> queue (send f event d s) = queue s
     \<and> send f event d s = send f event' d s"
  using assms by (simp add: send_def)

theorem send_open_transmits_data_only_witness:
  "isConnected (initial_ws\<lparr> isConnected := True, readyState := OPEN \<rparr>)
   \<and> readyState (initial_ws\<lparr> isConnected := True, readyState := OPEN \<rparr>) = OPEN
   \<and> sent (send operation_name ''getbalance'' (snd balance_request)
             (initial_ws\<lparr> isConnected := True, readyState := OPEN \<rparr>)) = [''getbalance'']
   \<and> send operation_name ''getbalance'' (snd balance_request)
        (initial_ws\<lparr> isConnected := True, readyState := OPEN \<rparr>) =
      send operation_name ''another_key'' (snd balance_request)
        (initial_ws\<lparr> isConnected := True, readyState := OPEN \<rparr>)"
  using send_open_transmits_data_only
    [of "initial_ws\<lparr> isConnected := True, readyState := OPEN \<rparr>" operation_name
        "''getbalance''" "snd balance_request" "''another_key''"]
  by (simp add: initial_ws_def balance_request_def send_def)

section \<open>Properties of the inbound path\<close>

lemma eventKey_not_null: "eventKey msg = Some v \<Longrightarrow> msg \<noteq> JNull"
  by (auto simp: eventKey_def js_or_def)

lemma session_expired_not_null: "session_expired msg \<Longrightarrow> msg \<noteq> JNull"
  by (auto simp: session_expired_def)

lemma invoke_calls: "calls (snd (invoke h d s)) = calls s @ [(handler_id h, d)]"
  by (cases h) (auto simp: off_def)

text \<open>One frame that reaches the dispatch, with a closure of \<open>once\<close> in the table.\<close>

lemma deliver_once:
  assumes "JSON_parse raw = Some msg" and "eventKey msg = Some (JStr k)" and "k \<noteq> []"
    and "\<not> session_expired msg" and "\<not> info_with_amounts msg"
    and "listeners (service p) k = Some (OnceCallback k cb)"
  shows "service (onmessage JSON_parse raw p) =
     (if cb_throws cb (count_calls (cb_id cb) (calls (service p))) (payload msg)
      then (service p)\<lparr> calls := calls (service p) @ [(cb_id cb, payload msg)] \<rparr>
      else off k ((service p)\<lparr> calls := calls (service p) @ [(cb_id cb, payload msg)] \<rparr>))"
  using assms eventKey_not_null [OF assms(2)]
  by (simp add: onmessage_def onmessage_try_def)

lemma deliver_none:
  assumes "JSON_parse raw = Some msg" and "eventKey msg = Some (JStr k)"
    and "listeners (service p) k = None"
  shows "service (onmessage JSON_parse raw p) = service p"
  using assms eventKey_not_null [OF assms(2)]
  by (simp add: onmessage_def onmessage_try_def split: option.splits)

lemma once_two_frames:
  assumes "JSON_parse raw1 = Some m1" and "eventKey m1 = Some (JStr k)"
    and "\<not> session_expired m1" and "\<not> info_with_amounts m1"
    and "JSON_parse raw2 = Some m2" and "eventKey m2 = Some (JStr k)"
    and "\<not> session_expired m2" and "\<not> info_with_amounts m2"
    and "k \<noteq> []"
    and "p1 = onmessage JSON_parse raw1 (p\<lparr> service := once k cb (service p) \<rparr>)"
    and "p2 = onmessage JSON_parse raw2 p1"
    and "threw = cb_throws cb (count_calls (cb_id cb) (calls (service p))) (payload m1)"
  shows "listeners (service p1) k = (if threw then Some (OnceCallback k cb) else None)
     \<and> calls (service p1) = calls (service p) @ [(cb_id cb, payload m1)]
     \<and> calls (service p2) =
         calls (service p) @ (cb_id cb, payload m1) # (if threw then [(cb_id cb, payload m2)] else [])"
proof -
  let ?p0 = "p\<lparr> service := once k cb (service p) \<rparr>"
  have l0: "listeners (service ?p0) k = Some (OnceCallback k cb)"
    by (simp add: once_def on_def)
  have c0: "calls (service ?p0) = calls (service p)"
    by (simp add: once_def on_def)
  have s1: "service p1 =
     (if threw then (service ?p0)\<lparr> calls := calls (service p) @ [(cb_id cb, payload m1)] \<rparr>
      else off k ((service ?p0)\<lparr> calls := calls (service p) @ [(cb_id cb, payload m1)] \<rparr>))"
    using deliver_once [where JSON_parse = JSON_parse and raw = raw1 and p = "?p0",
        OF assms(1,2,9,3,4) l0] assms(10,12) c0
    by simp
  show ?thesis
  proof (cases threw)
    case True
    then have l1: "listeners (service p1) k = Some (OnceCallback k cb)"
      and c1: "calls (service p1) = calls (service p) @ [(cb_id cb, payload m1)]"
      using s1 l0 by simp_all
    have "calls (service p2) = calls (service p1) @ [(cb_id cb, payload m2)]"
      using deliver_once [where JSON_parse = JSON_parse and raw = raw2 and p = p1,
          OF assms(5,6,9,7,8) l1] assms(11)
      by (simp add: off_def)
    with True l1 c1 show ?thesis by simp
  next
    case False
    then have l1: "listeners (service p1) k = None"
      and c1: "calls (service p1) = calls (service p) @ [(cb_id cb, payload m1)]"
      using s1 by (simp_all add: off_def)
    have "service p2 = service p1"
      using deliver_none [where JSON_parse = JSON_parse and raw = raw2 and p = p1,
          OF assms(5,6) l1] assms(11)
      by simp
    with False l1 c1 show ?thesis by simp
  qed
qed

text \<open>
  C5. A frame whose \<open>data.status\<close> is \<open>401 Session Expired\<close> leaves the service as it was:
  no handler is called, whatever the table holds for the frame's key, and no table entry
  changes. The logout hook of the page is called exactly once; a page that defines no
  hook has nothing to call.
\<close>

theorem expiry_frame_short_circuit:
  assumes "JSON_parse raw = Some msg" and "session_expired msg"
  shows "service (onmessage JSON_parse raw p) = service p
     \<and> calls (service (onmessage JSON_parse raw p)) = calls (service p)
     \<and> logouts (onmessage JSON_parse raw p) =
         (case logoutUser p of None \<Rightarrow> logouts p | Some t \<Rightarrow> logouts p + 1)"
  using assms session_expired_not_null [OF assms(2)]
  by (simp add: onmessage_def onmessage_try_def split: option.splits)

theorem expiry_frame_short_circuit_witness:
  "(\<lambda>raw. Some expiry_frame) ''frame'' = Some expiry_frame
   \<and> session_expired expiry_frame
   \<and> listeners (on ''getbalance'' (Plain cb1) initial_ws) ''getbalance'' = Some (Plain cb1)
   \<and> calls (service (onmessage (\<lambda>raw. Some expiry_frame) ''frame''
        (initial_page\<lparr> service := on ''getbalance'' (Plain cb1) initial_ws,
                        logoutUser := Some False \<rparr>))) = []
   \<and> logouts (onmessage (\<lambda>raw. Some expiry_frame) ''frame''
        (initial_page\<lparr> service := on ''getbalance'' (Plain cb1) initial_ws,
                        logoutUser := Some False \<rparr>)) = 1"
proof -
  have e: "session_expired expiry_frame"
    by (simp add: session_expired_def expiry_frame_def)
  from expiry_frame_short_circuit
    [where JSON_parse = "\<lambda>raw. Some expiry_frame" and raw = "''frame''" and msg = expiry_frame
       and p = "initial_page\<lparr> service := on ''getbalance'' (Plain cb1) initial_ws,
                              logoutUser := Some False \<rparr>", OF _ e]
  show ?thesis
    using e by (simp add: initial_page_def initial_ws_def on_def)
qed

text \<open>No frame changes the store: \<open>onmessage\<close> has no path that writes to it.\<close>

lemma onmessage_try_keeps_store:
  "onmessage_try msg p = (c, p') \<Longrightarrow> GlobalState p' = GlobalState p"
  by (auto simp: onmessage_try_def split: if_splits option.splits prod.splits)

lemma onmessage_keeps_store: "GlobalState (onmessage JSON_parse raw p) = GlobalState p"
proof (cases "JSON_parse raw")
  case None
  then show ?thesis by (simp add: onmessage_def)
next
  case (Some msg)
  obtain c p' where r: "onmessage_try msg p = (c, p')" by (cases "onmessage_try msg p")
  from onmessage_try_keeps_store [OF r] Some r show ?thesis
    by (cases c) (simp_all add: onmessage_def)
qed

text \<open>
  C6, on two \<open>info\<close> frames, with a handler registered for \<open>info\<close>. The store has no
  bet-step member, and no frame changes the store. A frame that carries the amounts
  under \<open>data\<close> is not intercepted: the store is left as it was and the frame only goes
  to the \<open>info\<close> handler. The same amounts at the top level of the frame reach the call of
  \<open>GlobalState.setBetSteps\<close>, which throws; the store is unchanged again, the frame is
  logged as invalid and the \<open>info\<close> handler is not called.
\<close>

theorem info_frame_amounts_not_stored:
  "GlobalState (onmessage JSON_parse raw p) = GlobalState p
   \<and> GlobalState (onmessage (\<lambda>raw. Some info_frame_nested) ''frame''
      (initial_page\<lparr> service := on ''info'' (Plain cb1) initial_ws \<rparr>)) = initial_gstate
   \<and> calls (service (onmessage (\<lambda>raw. Some info_frame_nested) ''frame''
      (initial_page\<lparr> service := on ''info'' (Plain cb1) initial_ws \<rparr>))) =
       [(1, JObj [(''mineSweeperAmounts'', JArr [JNum 1, JNum 2, JNum 5])])]
   \<and> invalid_messages (onmessage (\<lambda>raw. Some info_frame_nested) ''frame''
      (initial_page\<lparr> service := on ''info'' (Plain cb1) initial_ws \<rparr>)) = []
   \<and> GlobalState (onmessage (\<lambda>raw. Some info_frame_top) ''frame''
      (initial_page\<lparr> service := on ''info'' (Plain cb1) initial_ws \<rparr>)) = initial_gstate
   \<and> calls (service (onmessage (\<lambda>raw. Some info_frame_top) ''frame''
      (initial_page\<lparr> service := on ''info'' (Plain cb1) initial_ws \<rparr>))) = []
   \<and> invalid_messages (onmessage (\<lambda>raw. Some info_frame_top) ''frame''
      (initial_page\<lparr> service := on ''info'' (Plain cb1) initial_ws \<rparr>)) = [''frame'']"
proof -
  have "calls (service (onmessage (\<lambda>raw. Some info_frame_nested) ''frame''
      (initial_page\<lparr> service := on ''info'' (Plain cb1) initial_ws \<rparr>))) =
       [(1, JObj [(''mineSweeperAmounts'', JArr [JNum 1, JNum 2, JNum 5])])]
   \<and> invalid_messages (onmessage (\<lambda>raw. Some info_frame_nested) ''frame''
      (initial_page\<lparr> service := on ''info'' (Plain cb1) initial_ws \<rparr>)) = []
   \<and> calls (service (onmessage (\<lambda>raw. Some info_frame_top) ''frame''
      (initial_page\<lparr> service := on ''info'' (Plain cb1) initial_ws \<rparr>))) = []
   \<and> invalid_messages (onmessage (\<lambda>raw. Some info_frame_top) ''frame''
      (initial_page\<lparr> service := on ''info'' (Plain cb1) initial_ws \<rparr>)) = [''frame'']"
    by (simp add: onmessage_def onmessage_try_def session_expired_def info_with_amounts_def
        eventKey_def js_or_def payload_def info_frame_nested_def info_frame_top_def
        initial_page_def initial_ws_def on_def cb1_def count_calls_def)
  then show ?thesis
    by (simp add: onmessage_keeps_store initial_page_def)
qed

text \<open>
  C7. After \<open>on k h1\<close> and then \<open>on k h2\<close> the table holds \<open>h2\<close> for \<open>k\<close>. A frame whose
  dispatch key is \<open>k\<close> causes exactly one handler call, of \<open>h2\<close> with the frame's payload,
  unless the frame is cut short before the dispatch (session expiry, or the throwing
  interception of an info frame), in which case no handler is called. In no case is
  \<open>h1\<close> called.
\<close>

theorem later_on_replaces_earlier:
  assumes "JSON_parse raw = Some msg" and "eventKey msg = Some (JStr k)" and "k \<noteq> []"
  shows "listeners (on k h2 (on k h1 (service p))) k = Some h2
     \<and> calls (service (onmessage JSON_parse raw (p\<lparr> service := on k h2 (on k h1 (service p)) \<rparr>))) =
         calls (service p) @
           (if session_expired msg \<or> info_with_amounts msg then []
            else [(handler_id h2, payload msg)])"
proof -
  have nn: "msg \<noteq> JNull" using assms(2) by (rule eventKey_not_null)
  have c: "calls (on k h2 (on k h1 (service p))) = calls (service p)" by (simp add: on_def)
  have l: "lookup (listeners (on k h2 (on k h1 (service p)))) (Some (JStr k)) = Some h2"
    by (simp add: on_def)
  show ?thesis
    using assms nn c l invoke_calls [of h2 "payload msg" "on k h2 (on k h1 (service p))"]
    by (auto simp: onmessage_def onmessage_try_def on_def
        split: option.splits prod.splits completion.splits)
qed

theorem later_on_replaces_earlier_witness:
  "(\<lambda>raw. Some balance_frame) ''frame'' = Some balance_frame
   \<and> eventKey balance_frame = Some (JStr ''getbalance'')
   \<and> ''getbalance'' \<noteq> []
   \<and> listeners (on ''getbalance'' (Plain cb2) (on ''getbalance'' (Plain cb1) (service initial_page)))
        ''getbalance'' = Some (Plain cb2)
   \<and> calls (service (onmessage (\<lambda>raw. Some balance_frame) ''frame''
        (initial_page\<lparr> service :=
           on ''getbalance'' (Plain cb2) (on ''getbalance'' (Plain cb1) (service initial_page)) \<rparr>))) =
       [(2, JObj [(''balance'', JNum 100)])]"
proof -
  have k: "eventKey balance_frame = Some (JStr ''getbalance'')"
    by (simp add: eventKey_def js_or_def balance_frame_def)
  from later_on_replaces_earlier
    [where JSON_parse = "\<lambda>raw. Some balance_frame" and raw = "''frame''" and msg = balance_frame
       and k = "''getbalance''" and p = initial_page and ?h1.0 = "Plain cb1" and ?h2.0 = "Plain cb2",
     OF _ k]
  show ?thesis
    using k
    by (simp add: initial_page_def initial_ws_def session_expired_def info_with_amounts_def
        payload_def js_or_def balance_frame_def cb2_def)
qed

text \<open>
  C10. With \<open>once k cb\<close> registered, take two frames with dispatch key \<open>k\<close> that both reach
  the dispatch. The first calls \<open>cb\<close>. If that call throws, the closure is still in the
  table afterwards and the second frame calls \<open>cb\<close> again; if it returns normally, the
  entry is gone and the second frame calls nothing.
\<close>

theorem once_survives_throwing_callback:
  assumes "JSON_parse raw1 = Some m1" and "eventKey m1 = Some (JStr k)"
    and "\<not> session_expired m1" and "\<not> info_with_amounts m1"
    and "JSON_parse raw2 = Some m2" and "eventKey m2 = Some (JStr k)"
    and "\<not> session_expired m2" and "\<not> info_with_amounts m2"
    and "k \<noteq> []"
  shows "let p1 = onmessage JSON_parse raw1 (p\<lparr> service := once k cb (service p) \<rparr>);
             p2 = onmessage JSON_parse raw2 p1;
             threw = cb_throws cb (count_calls (cb_id cb) (calls (service p))) (payload m1)
         in listeners (service p1) k = (if threw then Some (OnceCallback k cb) else None)
            \<and> calls (service p1) = calls (service p) @ [(cb_id cb, payload m1)]
            \<and> calls (service p2) =
                calls (service p) @ (cb_id cb, payload m1) #
                  (if threw then [(cb_id cb, payload m2)] else [])"
  unfolding Let_def
  by (rule once_two_frames [OF assms refl refl refl])

theorem once_survives_throwing_callback_witness:
  "(\<lambda>raw. Some balance_frame) ''frame'' = Some balance_frame
   \<and> eventKey balance_frame = Some (JStr ''getbalance'')
   \<and> \<not> session_expired balance_frame \<and> \<not> info_with_amounts balance_frame
   \<and> cb_throws cb_throws_first (count_calls (cb_id cb_throws_first) (calls (service initial_page)))
        (payload balance_frame)
   \<and> listeners (service (onmessage (\<lambda>raw. Some balance_frame) ''frame''
        (initial_page\<lparr> service := once ''getbalance'' cb_throws_first (service initial_page) \<rparr>)))
        ''getbalance'' = Some (OnceCallback ''getbalance'' cb_throws_first)
   \<and> calls (service (onmessage (\<lambda>raw. Some balance_frame) ''frame''
        (onmessage (\<lambda>raw. Some balance_frame) ''frame''
           (initial_page\<lparr> service := once ''getbalance'' cb_throws_first (service initial_page) \<rparr>)))) =
       [(3, JObj [(''balance'', JNum 100)]), (3, JObj [(''balance'', JNum 100)])]"
proof -
  have k: "eventKey balance_frame = Some (JStr ''getbalance'')"
    by (simp add: eventKey_def js_or_def balance_frame_def)
  have e: "\<not> session_expired balance_frame"
    by (simp add: session_expired_def balance_frame_def)
  have i: "\<not> info_with_amounts balance_frame"
    by (simp add: info_with_amounts_def balance_frame_def)
  have t: "cb_throws cb_throws_first
      (count_calls (cb_id cb_throws_first) (calls (service initial_page))) (payload balance_frame)"
    by (simp add: cb_throws_first_def count_calls_def initial_page_def initial_ws_def)
  from once_survives_throwing_callback
    [where JSON_parse = "\<lambda>raw. Some balance_frame" and ?raw1.0 = "''frame''"
       and ?raw2.0 = "''frame''" and ?m1.0 = balance_frame and ?m2.0 = balance_frame
       and k = "''getbalance''" and p = initial_page and cb = cb_throws_first,
     OF _ k e i _ k e i]
  show ?thesis
    using k e i t
    by (simp add: Let_def payload_def js_or_def balance_frame_def cb_throws_first_def
        initial_page_def initial_ws_def)
qed

section \<open>Properties of the pending-round restoration\<close>

subsection \<open>Reading a \<open>COLSxROWS\<close> string\<close>

lemma of_char_digit: "d < 10 \<Longrightarrow> (of_char (char_of (48 + d :: nat)) :: nat) = 48 + d"
  by simp

lemma is_dec_char_of: "d < 10 \<Longrightarrow> is_dec (char_of (48 + d :: nat))"
  by (simp add: is_dec_def of_char_digit del: of_char_of)

lemma digit_value_char_of: "d < 10 \<Longrightarrow> digit_value 10 (char_of (48 + d :: nat)) = Some d"
  by (simp add: digit_value_def of_char_digit del: of_char_of)

lemma decimal_is_dec: "c \<in> set (decimal n) \<Longrightarrow> is_dec c"
proof (induction n arbitrary: c rule: decimal.induct)
  case (1 n)
  show ?case
  proof (cases "n < 10")
    case True
    with "1.prems" show ?thesis by (simp add: decimal.simps [of n] is_dec_char_of)
  next
    case False
    with "1.prems" have "c \<in> set (decimal (n div 10)) \<or> c = char_of (48 + n mod 10)"
      by (auto simp: decimal.simps [of n])
    then show ?thesis using "1.IH" False by (auto simp: is_dec_char_of)
  qed
qed

lemma decimal_not_Nil: "decimal n \<noteq> []"
  by (simp add: decimal.simps [of n])

lemma digits_value_snoc:
  "digits_value R (Z @ [c]) =
     digits_value R Z * R + (case digit_value R c of Some d \<Rightarrow> d | None \<Rightarrow> 0)"
  by (simp add: digits_value_def)

lemma digits_value_decimal: "digits_value 10 (decimal n) = n"
proof (induction n rule: decimal.induct)
  case (1 n)
  show ?case
  proof (cases "n < 10")
    case True
    then show ?thesis by (simp add: decimal.simps [of n] digits_value_def digit_value_char_of)
  next
    case False
    then have "digits_value 10 (decimal n) = digits_value 10 (decimal (n div 10)) * 10 + n mod 10"
      by (simp add: decimal.simps [of n] digits_value_snoc digit_value_char_of)
    with "1.IH" False show ?thesis by simp
  qed
qed

lemma is_dec_facts:
  assumes "is_dec c"
  shows "\<not> is_ws c" and "c \<noteq> CHR ''+''" and "c \<noteq> CHR ''-''" and "c \<noteq> CHR ''x''"
    and "c \<noteq> CHR ''X''" and "digit_value 10 c \<noteq> None"
  using assms by (auto simp: is_dec_def is_ws_def digit_value_def Let_def)

lemma take2_has_second: "take 2 s = [a, b] \<Longrightarrow> b \<in> set s"
proof -
  assume "take 2 s = [a, b]"
  then have "b \<in> set (take 2 s)" by simp
  then show ?thesis by (rule in_set_takeD)
qed

text \<open>
  On a non-empty string of decimal digits whose value is a safe integer \<open>parseInt\<close>
  returns that value.
\<close>

lemma parseInt_all_dec:
  assumes "s \<noteq> []" and "\<And>c. c \<in> set s \<Longrightarrow> is_dec c"
    and "int (digits_value 10 s) \<le> MAX_SAFE_INTEGER"
  shows "parseInt s = Some (Num (int (digits_value 10 s)))"
proof -
  have hd: "is_dec (hd s)" using assms by simp
  have ws: "dropWhile is_ws s = s"
    using assms(1) is_dec_facts(1) [OF hd] by (cases s) simp_all
  have nox: "take 2 s \<noteq> ''0x''"
  proof
    assume "take 2 s = ''0x''"
    then have "CHR ''x'' \<in> set s" by (rule take2_has_second)
    then show False using assms(2) is_dec_facts(4) by blast
  qed
  have noX: "take 2 s \<noteq> ''0X''"
  proof
    assume "take 2 s = ''0X''"
    then have "CHR ''X'' \<in> set s" by (rule take2_has_second)
    then show False using assms(2) is_dec_facts(5) by blast
  qed
  have tw: "takeWhile (\<lambda>c. digit_value 10 c \<noteq> None) s = s"
    using assms(2) is_dec_facts(6) by (simp add: takeWhile_eq_all_conv)
  have sg: "hd s \<noteq> CHR ''+''" "hd s \<noteq> CHR ''-''"
    using is_dec_facts(2,3) [OF hd] by simp_all
  have le: "\<not> int (digits_value 10 s) > MAX_SAFE_INTEGER"
    using assms(3) by simp
  show ?thesis
    unfolding parseInt_def Let_def ws
    using assms(1) sg nox noX tw le by (simp only: if_False if_True simp_thms)
qed

lemma parseInt_decimal:
  "int n \<le> MAX_SAFE_INTEGER \<Longrightarrow> parseInt (decimal n) = Some (Num (int n))"
  using parseInt_all_dec [of "decimal n"] decimal_not_Nil decimal_is_dec digits_value_decimal
  by simp

lemma split_x_plain: "CHR ''x'' \<notin> set a \<Longrightarrow> split_x a = [a]"
  by (induction a) auto

lemma split_x_once:
  "CHR ''x'' \<notin> set a \<Longrightarrow> CHR ''x'' \<notin> set b \<Longrightarrow> split_x (a @ CHR ''x'' # b) = [a, b]"
  by (induction a) (auto simp: split_x_plain)

lemma decimal_no_x: "CHR ''x'' \<notin> set (decimal n)"
  using decimal_is_dec is_dec_facts(4) by blast

lemma parse_gridOption_decimal:
  "int c \<le> MAX_SAFE_INTEGER \<Longrightarrow> int r \<le> MAX_SAFE_INTEGER \<Longrightarrow>
   parse_gridOption (decimal c @ CHR ''x'' # decimal r) = Some (Num (int c), Num (int r))"
  by (simp add: parse_gridOption_def split_x_once decimal_no_x parseInt_decimal element_def)

lemma parse_gridOption_5x6: "parse_gridOption ''5x6'' = Some (Num 5, Num 6)"
  by (simp add: parse_gridOption_def parseInt_def element_def is_ws_def digit_value_def
      digits_value_def MAX_SAFE_INTEGER_def)

lemma decimal_5_6: "decimal 5 @ ''x'' @ decimal 6 = ''5x6''"
  by code_simp

text \<open>The row arithmetic on a store with a row count.\<close>

lemma frontendCurrentRow_Num:
  "frontendCurrentRow (Num T) cr = Some v \<Longrightarrow> cr \<noteq> Absent \<Longrightarrow>
   v = Num (T - 1 - (case cr of Value k \<Rightarrow> k | _ \<Rightarrow> 0))"
  by (cases cr) (auto simp: frontendCurrentRow_def split: option.splits if_splits)

lemma frontendCurrentRow_not_Num:
  "frontendCurrentRow rows cr = Some v \<Longrightarrow> \<forall>T. rows \<noteq> Num T \<Longrightarrow> v = NaN"
  by (cases rows) (auto simp: frontendCurrentRow_def split: option.splits)

lemma frontendCurrentRow_in_range:
  "0 \<le> T \<Longrightarrow> T \<le> MAX_SAFE_INTEGER \<Longrightarrow> row_in_range cr \<Longrightarrow> cr \<noteq> Absent \<Longrightarrow>
   frontendCurrentRow (Num T) cr = Some (Num (T - 1 - (case cr of Value k \<Rightarrow> k | _ \<Rightarrow> 0)))"
  by (cases cr) (auto simp: frontendCurrentRow_def safe_integer_def MAX_SAFE_INTEGER_def)

lemma frontendCurrentRow_6_2: "frontendCurrentRow (Num 6) (Value 2) = Some (Num 3)"
  by (simp add: frontendCurrentRow_def safe_integer_def MAX_SAFE_INTEGER_def)

subsection \<open>\<open>restorePendingGame\<close>\<close>

text \<open>The stages of \<open>restorePendingGame\<close>, when it returns.\<close>

lemma restore_stages:
  assumes "restorePendingGame gameData g = Some (R, ts)"
  obtains g1 g2 g3 g4 g5 where
    "g1 = (case res_revealedMatrix gameData of None \<Rightarrow> g | Some m \<Rightarrow> setGameMatrix m g)"
    and "(case res_gridOption gameData of
            None \<Rightarrow> Some g1
          | Some opt \<Rightarrow>
              if opt \<noteq> []
              then (case parse_gridOption opt of
                      None \<Rightarrow> None
                    | Some (cols, rows) \<Rightarrow> Some (setGridDimensions cols rows g1))
              else Some g1) = Some g2"
    and "g3 = (case res_betAmount gameData of
                 None \<Rightarrow> g2
               | Some b \<Rightarrow> if b \<noteq> 0 then setStakeAmount b g2 else g2)"
    and "g4 = setRoundId (res_roundId gameData) g3"
    and "(if res_currentRow gameData \<noteq> Absent
          then (case frontendCurrentRow (total_rows g4) (res_currentRow gameData) of
                  None \<Rightarrow> None
                | Some frontendRow \<Rightarrow> Some (setCurrentRow frontendRow g4))
          else Some g4) = Some g5"
    and "R = setGameStarted True
           (setReward (case res_rowRewards gameData of
                         None \<Rightarrow> 0
                       | Some rs \<Rightarrow>
                           if length rs > 0 then (if last rs \<noteq> 0 then last rs else 0) else 0) g5)"
    and "ts = [(PENDING_GAME_RESTORE_DELAY, TriggerPendingGameRestore)]"
proof -
  let ?g1 = "case res_revealedMatrix gameData of None \<Rightarrow> g | Some m \<Rightarrow> setGameMatrix m g"
  let ?grid = "case res_gridOption gameData of
            None \<Rightarrow> Some ?g1
          | Some opt \<Rightarrow>
              if opt \<noteq> []
              then (case parse_gridOption opt of
                      None \<Rightarrow> None
                    | Some (cols, rows) \<Rightarrow> Some (setGridDimensions cols rows ?g1))
              else Some ?g1"
  have u: "restorePendingGame gameData g =
      (case ?grid of
           None \<Rightarrow> None
         | Some g2 \<Rightarrow>
             (let g3 = (case res_betAmount gameData of
                          None \<Rightarrow> g2
                        | Some b \<Rightarrow> if b \<noteq> 0 then setStakeAmount b g2 else g2);
                  g4 = setRoundId (res_roundId gameData) g3;
                  row = (if res_currentRow gameData \<noteq> Absent
                         then (case frontendCurrentRow (total_rows g4) (res_currentRow gameData) of
                                 None \<Rightarrow> None
                               | Some frontendRow \<Rightarrow> Some (setCurrentRow frontendRow g4))
                         else Some g4)
              in case row of
                   None \<Rightarrow> None
                 | Some g5 \<Rightarrow>
                     (let calculatedReward =
                            (case res_rowRewards gameData of
                               None \<Rightarrow> 0
                             | Some rs \<Rightarrow>
                                 if length rs > 0 then (if last rs \<noteq> 0 then last rs else 0)
                                 else 0);
                          g6 = setReward calculatedReward g5;
                          g7 = setGameStarted True g6
                      in Some (g7, [(PENDING_GAME_RESTORE_DELAY, TriggerPendingGameRestore)]))))"
    unfolding restorePendingGame_def Let_def ..
  obtain g2 where g2: "?grid = Some g2"
    using assms unfolding u by (cases ?grid) (simp_all only: option.case option.distinct)
  let ?g3 = "case res_betAmount gameData of
                 None \<Rightarrow> g2
               | Some b \<Rightarrow> if b \<noteq> 0 then setStakeAmount b g2 else g2"
  let ?g4 = "setRoundId (res_roundId gameData) ?g3"
  let ?row = "if res_currentRow gameData \<noteq> Absent
          then (case frontendCurrentRow (total_rows ?g4) (res_currentRow gameData) of
                  None \<Rightarrow> None
                | Some frontendRow \<Rightarrow> Some (setCurrentRow frontendRow ?g4))
          else Some ?g4"
  have v: "restorePendingGame gameData g =
      (case ?row of
                   None \<Rightarrow> None
                 | Some g5 \<Rightarrow>
                     Some (setGameStarted True (setReward (case res_rowRewards gameData of
                               None \<Rightarrow> 0
                             | Some rs \<Rightarrow>
                                 if length rs > 0 then (if last rs \<noteq> 0 then last rs else 0)
                                 else 0) g5), [(PENDING_GAME_RESTORE_DELAY, TriggerPendingGameRestore)]))"
    unfolding u g2 Let_def by (simp only: option.case)
  obtain g5 where g5: "?row = Some g5"
    using assms unfolding v by (cases ?row) (simp_all only: option.case option.distinct)
  have "R = setGameStarted True
           (setReward (case res_rowRewards gameData of
                         None \<Rightarrow> 0
                       | Some rs \<Rightarrow>
                           if length rs > 0 then (if last rs \<noteq> 0 then last rs else 0) else 0) g5)"
    and "ts = [(PENDING_GAME_RESTORE_DELAY, TriggerPendingGameRestore)]"
    using assms unfolding v g5 by (simp_all only: option.case option.inject prod.inject)
  with g2 g5 that [of ?g1 g2 ?g3 ?g4 g5] show thesis by blast
qed


text \<open>What the store holds once \<open>restorePendingGame\<close> has returned.\<close>

lemma restore_Some:
  assumes "restorePendingGame gameData g = Some (R, ts)"
  shows "ops R = ops g @ restore_ops gameData (total_cols R) (total_rows R) (current_row R)
     \<and> game_matrix R =
           (case res_revealedMatrix gameData of None \<Rightarrow> game_matrix g | Some m \<Rightarrow> m)
     \<and> stakeAmount R =
           (case res_betAmount gameData of
              None \<Rightarrow> stakeAmount g
            | Some b \<Rightarrow> if b = 0 then stakeAmount g else b)
     \<and> roundId R = res_roundId gameData
     \<and> reward R =
           (case res_rowRewards gameData of None \<Rightarrow> 0 | Some rs \<Rightarrow> if rs = [] then 0 else last rs)
     \<and> gameStarted R
     \<and> ts = [(PENDING_GAME_RESTORE_DELAY, TriggerPendingGameRestore)]
     \<and> (case res_gridOption gameData of
            None \<Rightarrow> total_cols R = total_cols g \<and> total_rows R = total_rows g
          | Some opt \<Rightarrow>
              if opt = [] then total_cols R = total_cols g \<and> total_rows R = total_rows g
              else parse_gridOption opt = Some (total_cols R, total_rows R))
     \<and> (if res_currentRow gameData = Absent then current_row R = current_row g
          else frontendCurrentRow (total_rows R) (res_currentRow gameData) = Some (current_row R))"
proof -
  from assms obtain g1 g2 g3 g4 g5 where
    g1: "g1 = (case res_revealedMatrix gameData of None \<Rightarrow> g | Some m \<Rightarrow> setGameMatrix m g)"
    and g2: "(case res_gridOption gameData of
            None \<Rightarrow> Some g1
          | Some opt \<Rightarrow>
              if opt \<noteq> []
              then (case parse_gridOption opt of
                      None \<Rightarrow> None
                    | Some (cols, rows) \<Rightarrow> Some (setGridDimensions cols rows g1))
              else Some g1) = Some g2"
    and g3: "g3 = (case res_betAmount gameData of
                 None \<Rightarrow> g2
               | Some b \<Rightarrow> if b \<noteq> 0 then setStakeAmount b g2 else g2)"
    and g4: "g4 = setRoundId (res_roundId gameData) g3"
    and g5: "(if res_currentRow gameData \<noteq> Absent
          then (case frontendCurrentRow (total_rows g4) (res_currentRow gameData) of
                  None \<Rightarrow> None
                | Some frontendRow \<Rightarrow> Some (setCurrentRow frontendRow g4))
          else Some g4) = Some g5"
    and R: "R = setGameStarted True
           (setReward (case res_rowRewards gameData of
                         None \<Rightarrow> 0
                       | Some rs \<Rightarrow>
                           if length rs > 0 then (if last rs \<noteq> 0 then last rs else 0) else 0) g5)"
    and ts: "ts = [(PENDING_GAME_RESTORE_DELAY, TriggerPendingGameRestore)]"
    by (rule restore_stages)
  have s1: "ops g1 = ops g @ (case res_revealedMatrix gameData of None \<Rightarrow> [] | Some m \<Rightarrow> [SetGameMatrix m])"
    "game_matrix g1 = (case res_revealedMatrix gameData of None \<Rightarrow> game_matrix g | Some m \<Rightarrow> m)"
    "total_cols g1 = total_cols g" "total_rows g1 = total_rows g"
    "stakeAmount g1 = stakeAmount g" "current_row g1 = current_row g"
    by (simp_all add: g1 setGameMatrix_def split: option.splits)
  have s2: "ops g2 = ops g1 @ (case res_gridOption gameData of
          None \<Rightarrow> []
        | Some opt \<Rightarrow> if opt = [] then [] else [SetGridDimensions (total_cols g2) (total_rows g2)])"
    "game_matrix g2 = game_matrix g1" "stakeAmount g2 = stakeAmount g1"
    "current_row g2 = current_row g1"
    "(case res_gridOption gameData of
            None \<Rightarrow> total_cols g2 = total_cols g1 \<and> total_rows g2 = total_rows g1
          | Some opt \<Rightarrow>
              if opt = [] then total_cols g2 = total_cols g1 \<and> total_rows g2 = total_rows g1
              else parse_gridOption opt = Some (total_cols g2, total_rows g2))"
    using g2 by (auto simp: setGridDimensions_eq split: option.splits if_splits)
  have s4: "ops g4 = ops g2 @ (case res_betAmount gameData of
          None \<Rightarrow> []
        | Some b \<Rightarrow> if b = 0 then [] else [SetStakeAmount b]) @ [SetRoundId (res_roundId gameData)]"
    "game_matrix g4 = game_matrix g2"
    "stakeAmount g4 = (case res_betAmount gameData of
              None \<Rightarrow> stakeAmount g2
            | Some b \<Rightarrow> if b = 0 then stakeAmount g2 else b)"
    "roundId g4 = res_roundId gameData"
    "total_cols g4 = total_cols g2" "total_rows g4 = total_rows g2"
    "current_row g4 = current_row g2"
    by (simp_all add: g3 g4 setStakeAmount_def setRoundId_def split: option.splits)
  have s5: "ops g5 = ops g4 @ (if res_currentRow gameData = Absent then [] else [SetCurrentRow (current_row g5)])"
    "game_matrix g5 = game_matrix g4" "stakeAmount g5 = stakeAmount g4" "roundId g5 = roundId g4"
    "total_cols g5 = total_cols g4" "total_rows g5 = total_rows g4"
    "(if res_currentRow gameData = Absent then current_row g5 = current_row g4
          else frontendCurrentRow (total_rows g4) (res_currentRow gameData) = Some (current_row g5))"
    using g5 by (auto simp: setCurrentRow_def split: option.splits if_splits)
  have sR: "ops R = ops g5 @ [SetReward (case res_rowRewards gameData of
                     None \<Rightarrow> 0
                   | Some rs \<Rightarrow> if rs = [] then 0 else last rs), SetGameStarted True]"
    "game_matrix R = game_matrix g5" "stakeAmount R = stakeAmount g5" "roundId R = roundId g5"
    "total_cols R = total_cols g5" "total_rows R = total_rows g5" "current_row R = current_row g5"
    "reward R = (case res_rowRewards gameData of None \<Rightarrow> 0 | Some rs \<Rightarrow> if rs = [] then 0 else last rs)"
    "gameStarted R"
    by (simp_all add: R setReward_def setGameStarted_eq split: option.splits)
  have cols: "total_cols R = total_cols g2" and rows: "total_rows R = total_rows g2"
    and rows4: "total_rows g4 = total_rows R" and row: "current_row R = current_row g5"
    by (simp_all add: sR s5 s4)
  have o: "ops R = ops g @ restore_ops gameData (total_cols R) (total_rows R) (current_row R)"
    by (simp add: sR(1) s5(1) s4(1) s2(1) s1(1) restore_ops_def cols rows row)
  have grid: "(case res_gridOption gameData of
            None \<Rightarrow> total_cols R = total_cols g \<and> total_rows R = total_rows g
          | Some opt \<Rightarrow>
              if opt = [] then total_cols R = total_cols g \<and> total_rows R = total_rows g
              else parse_gridOption opt = Some (total_cols R, total_rows R))"
    using s2(5) [unfolded s1(3,4)] unfolding cols rows
    by (auto split: option.splits if_splits)
  have crow: "(if res_currentRow gameData = Absent then current_row R = current_row g
          else frontendCurrentRow (total_rows R) (res_currentRow gameData) = Some (current_row R))"
    using s5(7) [unfolded rows4 s4(7) s2(4) s1(6)] unfolding row
    by (auto split: if_splits)
  have gm: "game_matrix R =
      (case res_revealedMatrix gameData of None \<Rightarrow> game_matrix g | Some m \<Rightarrow> m)"
    by (simp add: sR(2) s5(2) s4(2) s2(2) s1(2) split: option.splits)
  have st: "stakeAmount R =
      (case res_betAmount gameData of
         None \<Rightarrow> stakeAmount g
       | Some b \<Rightarrow> if b = 0 then stakeAmount g else b)"
    by (simp add: sR(3) s5(3) s4(3) s2(3) s1(5) split: option.splits)
  have rid: "roundId R = res_roundId gameData"
    by (simp add: sR(4) s5(4) s4(4))
  from o gm st rid sR(8) sR(9) ts grid crow show ?thesis
    by (intro conjI)
qed

lemma total_rows_after_stake:
  "total_rows (setRoundId rid (case b of None \<Rightarrow> g2 | Some x \<Rightarrow> if x \<noteq> 0 then setStakeAmount x g2 else g2))
     = total_rows g2"
  by (simp add: setRoundId_def setStakeAmount_def split: option.splits)

lemma restore_returns_grid:
  assumes "res_gridOption gameData = Some (decimal c @ CHR ''x'' # decimal r)"
    and "int c \<le> MAX_SAFE_INTEGER" and "int r \<le> MAX_SAFE_INTEGER"
    and "row_in_range (res_currentRow gameData)"
  shows "\<exists>R ts. restorePendingGame gameData g = Some (R, ts)"
proof (cases "res_currentRow gameData = Absent")
  case True
  then show ?thesis
    using assms(1) parse_gridOption_decimal [OF assms(2,3)]
    by (simp add: restorePendingGame_def Let_def decimal_not_Nil)
next
  case False
  have "frontendCurrentRow (Num (int r)) (res_currentRow gameData) \<noteq> None"
    using frontendCurrentRow_in_range [of "int r" "res_currentRow gameData"] assms(3,4) False
    by simp
  then show ?thesis
    using False assms(1) parse_gridOption_decimal [OF assms(2,3)]
    by (auto simp: restorePendingGame_def Let_def decimal_not_Nil total_rows_after_stake
        setGridDimensions_eq)
qed


text \<open>
  A \<open>null\<close> row is applied: on the sample round with 6 rows it stores \<open>6 - 1 - 0\<close>.
\<close>

lemma restore_null_row:
  "(case restorePendingGame (sample_response\<lparr> res_currentRow := Null \<rparr>) initial_gstate of
      None \<Rightarrow> False
    | Some (R, ts) \<Rightarrow> current_row R = Num 5 \<and> SetCurrentRow (Num 5) \<in> set (ops R))"
proof -
  have g: "res_gridOption (sample_response\<lparr> res_currentRow := Null \<rparr>) =
      Some (decimal 5 @ CHR ''x'' # decimal 6)"
    using decimal_5_6 by (simp add: sample_response_def)
  have "\<exists>R ts. restorePendingGame (sample_response\<lparr> res_currentRow := Null \<rparr>) initial_gstate
      = Some (R, ts)"
    by (rule restore_returns_grid [OF g]) (simp_all add: MAX_SAFE_INTEGER_def)
  then obtain R ts where
    e: "restorePendingGame (sample_response\<lparr> res_currentRow := Null \<rparr>) initial_gstate = Some (R, ts)"
    by blast
  from restore_Some [OF e] g
  have p: "parse_gridOption (decimal 5 @ CHR ''x'' # decimal 6) = Some (total_cols R, total_rows R)"
    and r: "frontendCurrentRow (total_rows R) Null = Some (current_row R)"
    and o: "ops R = ops initial_gstate
      @ restore_ops (sample_response\<lparr> res_currentRow := Null \<rparr>)
          (total_cols R) (total_rows R) (current_row R)"
    by (simp_all add: decimal_not_Nil)
  from p have "total_rows R = Num 6"
    using parse_gridOption_decimal [of 5 6] by (simp add: MAX_SAFE_INTEGER_def)
  with r have c: "current_row R = Num 5"
    using frontendCurrentRow_Num [of 6 Null "current_row R"] by simp
  with o have "SetCurrentRow (Num 5) \<in> set (ops R)"
    by (simp add: restore_ops_def)
  with e c show ?thesis by simp
qed

text \<open>Beyond the safe integers the model gives no number.\<close>

lemma parseInt_beyond_safe: "parseInt ''9007199254740993'' = None"
  by (simp add: parseInt_def is_ws_def digit_value_def digits_value_def MAX_SAFE_INTEGER_def)

lemma js_sub_beyond_safe: "js_sub (Num 9007199254740992) (Num 1) = None"
  by (simp add: safe_integer_def MAX_SAFE_INTEGER_def)




subsection \<open>Classification of the pending round\<close>

text \<open>
  C4. For an answer with status \<open>200 OK\<close> and \<open>hasExistingGame\<close> true the handler resolves
  to true, and restores, exactly when the round id is present and non-empty and the round
  is not completed; otherwise it resolves to false and leaves the store untouched, with
  no timer set. A round is completed when the reported row (0 when absent) is at least
  \<open>totalRows - 1\<close> or \<open>gameOver\<close> is true, where \<open>totalRows\<close> is the row count of the store
  (6 when that is 0 or no number); so a completed round is not restored even with a
  valid round id.
\<close>

theorem pending_round_classification:
  assumes "res_status res = Some ''200 OK''" and "res_hasExistingGame res = Some True"
  shows "on_minesweeper_game_load res g =
           (if hasValidRoundId res \<and> \<not> isGameCompleted res g
            then (True, restorePendingGame res g) else (False, Some (g, [])))
     \<and> (isGameCompleted res g \<longrightarrow> on_minesweeper_game_load res g = (False, Some (g, [])))
     \<and> (\<forall>r. res_currentRow res = Value r \<longrightarrow>
           isGameCompleted res g = (r \<ge> totalRows g - 1 \<or> res_gameOver res = Some True))
     \<and> (res_gameOver res = Some True \<longrightarrow> isGameCompleted res g)
     \<and> hasValidRoundId res = (\<exists>rid. res_roundId res = Some rid \<and> rid \<noteq> [])
     \<and> (\<forall>n. total_rows g = Num n \<and> n \<noteq> 0 \<longrightarrow> totalRows g = n)"
  using assms
  by (auto simp: on_minesweeper_game_load_def isGameCompleted_def backendCurrentRow_def
      totalRows_def hasValidRoundId_def split: option.splits)

theorem pending_round_classification_witness:
  "res_status (sample_response\<lparr> res_currentRow := Value 5 \<rparr>) = Some ''200 OK''
   \<and> res_hasExistingGame (sample_response\<lparr> res_currentRow := Value 5 \<rparr>) = Some True
   \<and> total_rows initial_gstate = Num 6
   \<and> hasValidRoundId (sample_response\<lparr> res_currentRow := Value 5 \<rparr>)
   \<and> isGameCompleted (sample_response\<lparr> res_currentRow := Value 5 \<rparr>) initial_gstate
   \<and> on_minesweeper_game_load (sample_response\<lparr> res_currentRow := Value 5 \<rparr>) initial_gstate =
       (False, Some (initial_gstate, []))
   \<and> isGameCompleted (sample_response\<lparr> res_currentRow := Value 3, res_gameOver := Some True \<rparr>)
        initial_gstate
   \<and> \<not> isGameCompleted sample_response initial_gstate
   \<and> fst (on_minesweeper_game_load sample_response initial_gstate)"
proof -
  have s5: "res_status (sample_response\<lparr> res_currentRow := Value 5 \<rparr>) = Some ''200 OK''"
    and h5: "res_hasExistingGame (sample_response\<lparr> res_currentRow := Value 5 \<rparr>) = Some True"
    by (simp_all add: sample_response_def)
  have s: "res_status sample_response = Some ''200 OK''"
    and h: "res_hasExistingGame sample_response = Some True"
    by (simp_all add: sample_response_def)
  show ?thesis
    using pending_round_classification [OF s5 h5, of initial_gstate]
      pending_round_classification [OF s h, of initial_gstate]
    by (simp add: isGameCompleted_def backendCurrentRow_def totalRows_def hasValidRoundId_def
        sample_response_def initial_gstate_def DEFAULT_ROWS_def)
qed

end
